theory Spec2Isabelle
  imports Complex_Main "HOL-Library.Log_Nat"
begin

section \<open>Python values, dictionaries and exceptions\<close>

subsection \<open>Dictionaries\<close>

text \<open>
  A Python \<open>dict\<close> keeps its keys in insertion order: assigning to a key that is present
  replaces the value in place, assigning to a new key appends it, \<open>del\<close> removes the entry.
  The loops of the engine iterate dictionaries in this order, so a dictionary is an
  association list with distinct keys.
\<close>

type_synonym ('k, 'v) dict = "('k \<times> 'v) list"

definition dict_get :: "('k, 'v) dict \<Rightarrow> 'k \<Rightarrow> 'v option" where
  "dict_get d k = map_of d k"

fun dict_set :: "('k, 'v) dict \<Rightarrow> 'k \<Rightarrow> 'v \<Rightarrow> ('k, 'v) dict" where
  "dict_set [] k v = [(k, v)]"
| "dict_set ((k', v') # d) k v =
     (if k' = k then (k, v) # d else (k', v') # dict_set d k v)"

definition dict_del :: "('k, 'v) dict \<Rightarrow> 'k \<Rightarrow> ('k, 'v) dict" where
  "dict_del d k = filter (\<lambda>kv. fst kv \<noteq> k) d"

definition dict_keys :: "('k, 'v) dict \<Rightarrow> 'k list" where
  "dict_keys d = map fst d"

subsection \<open>Text\<close>

definition ident_start :: "char \<Rightarrow> bool" where
  "ident_start c \<longleftrightarrow>
     c \<in> set ''abcdefghijklmnopqrstuvwxyzABCDEFGHIJKLMNOPQRSTUVWXYZ_''"

definition is_digit :: "char \<Rightarrow> bool" where
  "is_digit c \<longleftrightarrow> c \<in> set ''0123456789''"

definition word_char :: "char \<Rightarrow> bool" where
  "word_char c \<longleftrightarrow> ident_start c \<or> is_digit c"

definition digit_char :: "nat \<Rightarrow> char" where
  "digit_char n = ''0123456789'' ! (n mod 10)"

definition digit_val :: "char \<Rightarrow> nat" where
  "digit_val c = length (takeWhile (\<lambda>d. d \<noteq> c) ''0123456789'')"

text \<open>\<open>str(n)\<close> and \<open>int(s)\<close> for numbers written in decimal digits.\<close>

function str_nat :: "nat \<Rightarrow> string" where
  "str_nat n = (if n < 10 then [digit_char n] else str_nat (n div 10) @ [digit_char n])"
  by pat_completeness auto
termination
  by (relation "measure id") auto

declare str_nat.simps [simp del]

definition nat_of_digits :: "string \<Rightarrow> nat" where
  "nat_of_digits ds = foldl (\<lambda>n c. 10 * n + digit_val c) 0 ds"

definition str_int :: "int \<Rightarrow> string" where
  "str_int i = (if i < 0 then CHR ''-'' # str_nat (nat (- i)) else str_nat (nat i))"

text \<open>\<open>s.lower()\<close> and \<open>s.upper()\<close> on ASCII letters.\<close>

definition lower_char :: "char \<Rightarrow> char" where
  "lower_char c =
     (case map_of (zip ''ABCDEFGHIJKLMNOPQRSTUVWXYZ'' ''abcdefghijklmnopqrstuvwxyz'') c of
        Some l \<Rightarrow> l | None \<Rightarrow> c)"

definition upper_char :: "char \<Rightarrow> char" where
  "upper_char c =
     (case map_of (zip ''abcdefghijklmnopqrstuvwxyz'' ''ABCDEFGHIJKLMNOPQRSTUVWXYZ'') c of
        Some u \<Rightarrow> u | None \<Rightarrow> c)"

definition lower :: "string \<Rightarrow> string" where
  "lower s = map lower_char s"

definition upper :: "string \<Rightarrow> string" where
  "upper s = map upper_char s"

text \<open>\<open>kw in s\<close> on strings: \<open>kw\<close> occurs in \<open>s\<close> as a contiguous piece.\<close>

fun contains :: "string \<Rightarrow> string \<Rightarrow> bool" where
  "contains [] kw = (kw = [])"
| "contains (c # cs) kw = (take (length kw) (c # cs) = kw \<or> contains cs kw)"

subsection \<open>Decimal\<close>

text \<open>
  A finite \<open>decimal.Decimal\<close> is a signed coefficient and an exponent, and denotes
  coefficient times ten to the exponent. The same number has several representations
  (\<open>50\<close>, \<open>50.0\<close>, \<open>5E+1\<close>), which \<open>str\<close> tells apart, so the model keeps both
  components. Every arithmetic result is rounded to the context precision, which
  \<open>unit_registry.py\<close> sets to 50 significant digits (\<open>getcontext().prec = 50\<close>), with the
  default rounding mode \<open>ROUND_HALF_EVEN\<close>. Outside the model: the special values
  (infinities, NaN), the sign of zero, and the exponent limits of the context.
\<close>

datatype decimal = Decimal (coeff: int) (expo: int)

definition prec :: nat where
  "prec = 50"

definition ndigits :: "nat \<Rightarrow> nat" where
  "ndigits n = (if n = 0 then 1 else floorlog 10 n)"

definition dec_val :: "decimal \<Rightarrow> rat" where
  "dec_val d = (if 0 \<le> expo d then of_int (coeff d) * 10 ^ nat (expo d)
                else of_int (coeff d) / 10 ^ nat (- expo d))"

text \<open>Comparison is by value: both coefficients are brought to the smaller exponent.\<close>

definition aligned :: "decimal \<Rightarrow> decimal \<Rightarrow> int" where
  "aligned a b = coeff a * 10 ^ nat (expo a - min (expo a) (expo b))"

definition dec_lt :: "decimal \<Rightarrow> decimal \<Rightarrow> bool" where
  "dec_lt a b \<longleftrightarrow> aligned a b < aligned b a"

definition dec_le :: "decimal \<Rightarrow> decimal \<Rightarrow> bool" where
  "dec_le a b \<longleftrightarrow> aligned a b \<le> aligned b a"

definition dec_eq :: "decimal \<Rightarrow> decimal \<Rightarrow> bool" where
  "dec_eq a b \<longleftrightarrow> aligned a b = aligned b a"

definition dec_of_int :: "int \<Rightarrow> decimal" where
  "dec_of_int i = Decimal i 0"

text \<open>
  \<open>_fix\<close>: a coefficient of more than \<open>prec\<close> digits loses its last digits, rounding half
  to even; when the rounding carries into a further digit, one more digit is dropped.
\<close>

definition round_half_even :: "nat \<Rightarrow> nat \<Rightarrow> nat" where
  "round_half_even n k =
     (let q = n div 10 ^ k; r = n mod 10 ^ k
      in if 10 ^ k < 2 * r \<or> (2 * r = 10 ^ k \<and> odd q) then q + 1 else q)"

definition dec_fix :: "decimal \<Rightarrow> decimal" where
  "dec_fix d =
     (let n = nat \<bar>coeff d\<bar>
      in if ndigits n \<le> prec then d
         else let k = ndigits n - prec; q = round_half_even n k
              in if q = 10 ^ prec
                 then Decimal (sgn (coeff d) * int (q div 10)) (expo d + int k + 1)
                 else Decimal (sgn (coeff d) * int q) (expo d + int k))"

definition dec_add :: "decimal \<Rightarrow> decimal \<Rightarrow> decimal" where
  "dec_add a b = dec_fix (Decimal (aligned a b + aligned b a) (min (expo a) (expo b)))"

definition dec_neg :: "decimal \<Rightarrow> decimal" where
  "dec_neg a = Decimal (- coeff a) (expo a)"

definition dec_sub :: "decimal \<Rightarrow> decimal \<Rightarrow> decimal" where
  "dec_sub a b = dec_add a (dec_neg b)"

definition dec_mul :: "decimal \<Rightarrow> decimal \<Rightarrow> decimal" where
  "dec_mul a b = dec_fix (Decimal (coeff a * coeff b) (expo a + expo b))"

text \<open>
  \<open>Decimal(s)\<close> for the numeric syntax: an optional sign, digits with an optional fraction
  (at least one digit in all), and an optional exponent. Any other text is refused here;
  Python refuses it with \<open>InvalidOperation\<close> unless it is one of the forms left outside
  the model (surrounding white space, underscores between digits, the special values).
\<close>

definition split_sign :: "string \<Rightarrow> bool \<times> string" where
  "split_sign s =
     (case s of
        c # cs \<Rightarrow> if c = CHR ''-'' then (True, cs) else if c = CHR ''+'' then (False, cs)
                  else (False, s)
      | [] \<Rightarrow> (False, s))"

definition parse_exponent :: "string \<Rightarrow> int option" where
  "parse_exponent s =
     (case s of
        [] \<Rightarrow> Some 0
      | c # cs \<Rightarrow>
          if c = CHR ''e'' \<or> c = CHR ''E''
          then (let (neg, ds) = split_sign cs
                in if ds \<noteq> [] \<and> list_all is_digit ds
                   then Some (if neg then - int (nat_of_digits ds) else int (nat_of_digits ds))
                   else None)
          else None)"

definition Decimal_of_str :: "string \<Rightarrow> decimal option" where
  "Decimal_of_str s =
     (let (neg, body) = split_sign s;
          ip = takeWhile is_digit body;
          r1 = dropWhile is_digit body;
          (fp, r2) = (case r1 of
                        c # cs \<Rightarrow> if c = CHR ''.''
                                  then (takeWhile is_digit cs, dropWhile is_digit cs)
                                  else ([], r1)
                      | [] \<Rightarrow> ([], r1))
      in if ip = [] \<and> fp = [] then None
         else case parse_exponent r2 of
                None \<Rightarrow> None
              | Some e \<Rightarrow>
                  Some (Decimal ((if neg then - 1 else 1) * int (nat_of_digits (ip @ fp)))
                          (e - int (length fp))))"

text \<open>
  \<open>str(d)\<close>: plain notation when the exponent is at most 0 and the number is not too
  small, scientific notation otherwise.
\<close>

definition str_decimal :: "decimal \<Rightarrow> string" where
  "str_decimal d =
     (let digits = str_nat (nat \<bar>coeff d\<bar>);
          sign = (if coeff d < 0 then [CHR ''-''] else []);
          leftdigits = expo d + int (length digits);
          dotplace = (if expo d \<le> 0 \<and> - 6 < leftdigits then leftdigits else 1);
          intpart = (if dotplace \<le> 0 then [CHR ''0'']
                     else if int (length digits) \<le> dotplace
                     then digits @ replicate (nat (dotplace - int (length digits))) CHR ''0''
                     else take (nat dotplace) digits);
          fracpart = (if dotplace \<le> 0
                      then [CHR ''.''] @ replicate (nat (- dotplace)) CHR ''0'' @ digits
                      else if int (length digits) \<le> dotplace then []
                      else [CHR ''.''] @ drop (nat dotplace) digits);
          ex = (if leftdigits = dotplace then []
                else [CHR ''E''] @ (if 0 \<le> leftdigits - dotplace then [CHR ''+''] else [])
                       @ str_int (leftdigits - dotplace))
      in sign @ intpart @ fracpart @ ex)"

subsection \<open>Values of event fields\<close>

text \<open>
  The fields \<open>value\<close>, \<open>qty\<close>, \<open>expiry_value\<close> and the effect values of an event come from
  JSON and are read by the engine through \<open>str\<close>. The model has \<open>None\<close>, strings and
  integers; JSON floats and booleans are left out.
\<close>

datatype pyval = PNone | PStr string | PInt int

definition str_pyval :: "pyval \<Rightarrow> string" where
  "str_pyval v = (case v of PNone \<Rightarrow> ''None'' | PStr s \<Rightarrow> s | PInt i \<Rightarrow> str_int i)"

text \<open>\<open>not v\<close> for the value of \<open>event.get(key)\<close>; a missing key reads as \<open>None\<close>.\<close>

definition falsy :: "pyval option \<Rightarrow> bool" where
  "falsy v \<longleftrightarrow> v = None \<or> v = Some PNone \<or> v = Some (PStr []) \<or> v = Some (PInt 0)"

text \<open>\<open>v in [None, "", "TBD", "tbd"]\<close>: the markers of a value still to be determined.\<close>

definition indeterminate :: "pyval \<Rightarrow> bool" where
  "indeterminate v \<longleftrightarrow> v = PNone \<or> v = PStr [] \<or> v = PStr ''TBD'' \<or> v = PStr ''tbd''"

subsection \<open>Decimal division\<close>

text \<open>
  \<open>a / b\<close> for a divisor that is not zero, as \<open>Decimal.__truediv__\<close> computes it: the
  dividend is scaled so that the integer quotient has one digit more than the precision;
  a remainder is recorded in the last digit so that the final rounding is correct; an exact
  quotient is brought as close to the exponent \<open>expo a - expo b\<close> as its trailing zeros
  allow. The result is rounded to the precision.
\<close>

function strip_zeros :: "int \<Rightarrow> nat \<Rightarrow> int \<Rightarrow> nat \<times> int" where
  "strip_zeros ideal c e =
     (if e < ideal \<and> c mod 10 = 0 \<and> c \<noteq> 0
      then strip_zeros ideal (c div 10) (e + 1) else (c, e))"
  by pat_completeness auto
termination
  by (relation "measure (\<lambda>(ideal, c, e). nat (ideal - e))") auto

declare strip_zeros.simps [simp del]

definition dec_div :: "decimal \<Rightarrow> decimal \<Rightarrow> decimal" where
  "dec_div a b =
     (let sign = sgn (coeff a) * sgn (coeff b);
          x = nat \<bar>coeff a\<bar>; y = nat \<bar>coeff b\<bar>
      in if x = 0 then Decimal 0 (expo a - expo b)
         else let shift = int (ndigits y) - int (ndigits x) + int prec + 1;
                  e = expo a - expo b - shift;
                  num = (if 0 \<le> shift then x * 10 ^ nat shift else x);
                  den = (if 0 \<le> shift then y else y * 10 ^ nat (- shift));
                  q = num div den; r = num mod den;
                  (c, e') = (if r \<noteq> 0 then (if q mod 5 = 0 then q + 1 else q, e)
                             else strip_zeros (expo a - expo b) q e)
              in dec_fix (Decimal (sign * int c) e'))"

text \<open>
  \<open>a // b\<close> and \<open>a % b\<close>, as \<open>Decimal._divide\<close> computes them: the integer quotient of the
  absolute values, truncated, with exponent 0, and the remainder with the sign of the
  dividend. A quotient of more than \<open>prec\<close> digits raises \<open>InvalidOperation\<close>, a zero
  divisor raises too.
\<close>

definition dec_divide ::
  "decimal \<Rightarrow> decimal \<Rightarrow> (decimal \<times> decimal) option" where
  "dec_divide a b =
     (let x = nat \<bar>aligned a b\<bar>; y = nat \<bar>aligned b a\<bar>; q = x div y
      in if q < 10 ^ prec
         then Some (Decimal (sgn (coeff a) * sgn (coeff b) * int q) 0,
                    Decimal (sgn (coeff a) * int (x mod y)) (min (expo a) (expo b)))
         else None)"

subsection \<open>Exceptions and messages\<close>

text \<open>
  An exception is its Python class together with its message. Messages, log lines and
  alerts are kept structured: one constructor per format string of the source, carrying
  the values that the format string interpolates.
\<close>

datatype message =
    Circular_dependency_detected "string list"
  | Unknown_formula string
  | Cannot_convert string
  | Missing_required_stats string "string list"
  | Error_evaluating_formula string string message
  | Division_by_zero
  | Exponent_exceeds_safety_limit decimal
  | Conversion_syntax
  | Division_impossible
  | Decimal_division_by_zero
  | Invalid_expression
  | Name_not_defined string
  | Key_missing string
  | Unsupported_operand
  | Expected_string
  | NoneType_has_no_attribute string
  | Insufficient_gold decimal decimal
  | Insufficient_item "string option" decimal decimal
  | Invalid_quantity decimal
  | Expiry_value_required string
  | Gold_underflow_allowed
  | Item_underflow_allowed "string option"
  | Ambiguous_match string
  | Fuzzy_matched string string
  | Critical_negative string decimal
  | Blocked_keyword string string
  | Gold_gain_exceeds_limit decimal int
  | Stat_increase_exceeds_limit decimal int
  | Item_quantity_exceeds_limit decimal
  | Safe
  | Success
  | Transaction_blocked message
  | Event_validation_failed message
  | Batch_failed message
  | Not_enough_gold decimal
  | Not_enough_item "string option" decimal
  | Stat_negative "string option" decimal
  | Log_gold string pyval string
  | Log_item string "string option" pyval
  | Log_stat string "string option" pyval
  | Log_buff "string option"
  | Exception_text string

datatype py_exn =
    ValueError message
  | KeyError message
  | ZeroDivisionError message
  | TypeError message
  | InvalidOperation message
  | InvalidExpression message
  | AttributeError message

text \<open>\<open>str(e)\<close> of an exception is its message.\<close>

definition str_exn :: "py_exn \<Rightarrow> message" where
  "str_exn e = (case e of ValueError m \<Rightarrow> m | KeyError m \<Rightarrow> m | ZeroDivisionError m \<Rightarrow> m
                | TypeError m \<Rightarrow> m | InvalidOperation m \<Rightarrow> m
                | InvalidExpression m \<Rightarrow> m | AttributeError m \<Rightarrow> m)"


section \<open>WorldSchema and UnitRegistry (logic/world\_schema.py, logic/unit\_registry.py)\<close>

record world_schema =
  currency_name :: string
  base_unit :: string
  conversions :: "(string, decimal) dict"
  display_format :: string

text \<open>
  The checks of \<open>__post_init__\<close> (the base unit is a key of the conversions and has rate 1)
  and of \<open>validate\<close>; a schema reaches a \<open>UnitRegistry\<close> only after both.
\<close>

definition post_init_ok :: "world_schema \<Rightarrow> bool" where
  "post_init_ok s \<longleftrightarrow>
     (case dict_get (conversions s) (base_unit s) of
        None \<Rightarrow> False
      | Some r \<Rightarrow> dec_eq r (Decimal 1 0))"

definition validate :: "world_schema \<Rightarrow> bool" where
  "validate s \<longleftrightarrow>
     currency_name s \<noteq> [] \<and> base_unit s \<noteq> [] \<and> conversions s \<noteq> []
     \<and> display_format s \<in> set [''standard'', ''scientific'', ''time_mixed'', ''decimal'']
     \<and> list_all (\<lambda>(unit, rate). \<not> dec_le rate (Decimal 0 0)) (conversions s)"


text \<open>\<open>s.replace(c, '')\<close> for a single character.\<close>

definition remove_char :: "char \<Rightarrow> string \<Rightarrow> string" where
  "remove_char c s = filter (\<lambda>x. x \<noteq> c) s"

text \<open>
  \<open>to_base\<close>: the value is read as a decimal after removing commas; a unit that the schema
  does not know passes through at rate 1.
\<close>

definition to_base :: "world_schema \<Rightarrow> string \<Rightarrow> string \<Rightarrow> py_exn + decimal" where
  "to_base schema value_str unit =
     (case Decimal_of_str (remove_char CHR '','' value_str) of
        None \<Rightarrow> Inl (InvalidOperation Conversion_syntax)
      | Some decimal_value \<Rightarrow>
          (case dict_get (conversions schema) unit of
             None \<Rightarrow> Inr decimal_value
           | Some conversion_rate \<Rightarrow> Inr (dec_mul decimal_value conversion_rate)))"

text \<open>
  \<open>sorted(items, key=rate, reverse=True)\<close>: a stable sort, so units of equal rate keep the
  order of the dictionary.
\<close>

fun insort_desc :: "string \<times> decimal \<Rightarrow> (string \<times> decimal) list \<Rightarrow> (string \<times> decimal) list" where
  "insort_desc x [] = [x]"
| "insort_desc x (y # ys) =
     (if dec_le (snd y) (snd x) then x # y # ys else y # insort_desc x ys)"

definition sorted_units :: "(string, decimal) dict \<Rightarrow> (string \<times> decimal) list" where
  "sorted_units d = foldr insort_desc d []"

text \<open>
  The breakdown loop of \<open>from_base\<close> (no target unit). Membership of a rate in
  \<open>processed_rates\<close> is by numeric value, as hashing and equality of \<open>Decimal\<close> are.
\<close>

fun breakdown ::
  "string \<Rightarrow> (string \<times> decimal) list \<Rightarrow> (string, decimal) dict \<Rightarrow> decimal \<Rightarrow> decimal list
     \<Rightarrow> py_exn + ((string, decimal) dict \<times> decimal)" where
  "breakdown base [] result remaining processed_rates = Inr (result, remaining)"
| "breakdown base ((unit, rate) # us) result remaining processed_rates =
     (if list_ex (\<lambda>r. dec_eq r rate) processed_rates \<and> unit \<noteq> base
      then breakdown base us result remaining processed_rates
      else if dec_eq rate (Decimal 1 0) \<and> unit \<noteq> base
      then breakdown base us result remaining processed_rates
      else if unit = base
      then breakdown base us (dict_set result unit remaining) remaining
             (rate # processed_rates)
      else if coeff rate = 0 then Inl (ZeroDivisionError Decimal_division_by_zero)
      else case dec_divide remaining rate of
             None \<Rightarrow> Inl (InvalidOperation Division_impossible)
           | Some (count, rem) \<Rightarrow>
               if dec_lt (Decimal 0 0) count
               then breakdown base us (dict_set result unit count)
                      (dec_sub remaining (dec_mul count rate)) (rate # processed_rates)
               else breakdown base us result remaining processed_rates)"

definition from_base :: "world_schema \<Rightarrow> decimal \<Rightarrow> py_exn + (string, decimal) dict" where
  "from_base schema decimal_value =
     (case breakdown (base_unit schema) (sorted_units (conversions schema)) [] decimal_value []
      of Inl e \<Rightarrow> Inl e
       | Inr (result, remaining) \<Rightarrow>
           if dec_lt (Decimal 0 0) remaining \<and> dict_get result (base_unit schema) = None
           then Inr (dict_set result (base_unit schema) remaining)
           else Inr result)"

text \<open>
  \<open>from_base\<close> with a target unit: the value divided by the rate of the unit, or the value
  itself for a unit that the schema does not know.
\<close>

definition from_base_unit :: "world_schema \<Rightarrow> decimal \<Rightarrow> string \<Rightarrow> py_exn + decimal" where
  "from_base_unit schema decimal_value target_unit =
     (case dict_get (conversions schema) target_unit of
        None \<Rightarrow> Inr decimal_value
      | Some rate \<Rightarrow>
          if coeff rate = 0 then Inl (ZeroDivisionError Decimal_division_by_zero)
          else Inr (dec_div decimal_value rate))"

section \<open>Library functions used by the engine\<close>

text \<open>
  Formulas are evaluated by the \<open>simpleeval\<close> package over Python's expression syntax. The
  model covers the expressions built from numeric literals, names and binary operators;
  a literal stands for the decimal that the operators of the engine make of it through
  \<open>Decimal(str(x))\<close>.
\<close>

datatype binop =
    Add | Sub | Mult | Div | FloorDiv | Mod | Pow
  | Eq | NotEq | Lt | LtE | Gt | GtE

datatype expr =
    Num decimal
  | Name string
  | BinOp expr binop expr

datatype val = VDec decimal | VBool bool

text \<open>
  Four functions of Python libraries are taken as given instead of being modelled:
  the parser (which yields no tree for text that is not an expression of the fragment
  above), \<open>Decimal.__pow__\<close>, the similarity ratio of \<open>difflib.SequenceMatcher\<close> (a float
  in the source, a rational here), and \<open>datetime.fromisoformat\<close> (yielding a point on a
  time line, or nothing for text that it refuses).
\<close>

record externals =
  parse_expr :: "string \<Rightarrow> expr option"
  decimal_power :: "decimal \<Rightarrow> decimal \<Rightarrow> py_exn + decimal"
  seq_ratio :: "string \<Rightarrow> string \<Rightarrow> rat"
  fromisoformat :: "string \<Rightarrow> int option"
section \<open>FormulaEngine (logic/formula\_engine.py)\<close>

text \<open>
  The three tables of the engine. A dependency set is kept as the list of its members in
  order of first occurrence in the expression: Python iterates a \<open>set\<close> in an order that
  the language does not fix, which can only change which of several cycles is reported.
\<close>

record formula_engine =
  formulas :: "(string, string) dict"
  dirty_flags :: "(string, bool) dict"
  dependencies :: "(string, string list) dict"

definition FormulaEngine_init :: formula_engine where
  "FormulaEngine_init = \<lparr>formulas = [], dirty_flags = [], dependencies = []\<rparr>"

text \<open>
  \<open>_extract_dependencies\<close> collects the matches of
  \<^verbatim>\<open>\b([a-zA-Z_][a-zA-Z0-9_]*)\b\<close>: the maximal runs of word characters that start
  with a letter or an underscore, minus a fixed list of keywords. Characters are ASCII
  here; letters outside ASCII are not modelled.
\<close>

fun word_runs :: "string \<Rightarrow> string \<Rightarrow> string list" where
  "word_runs acc [] = (if acc = [] then [] else [acc])"
| "word_runs acc (c # cs) =
     (if word_char c then word_runs (acc @ [c]) cs
      else (if acc = [] then [] else [acc]) @ word_runs [] cs)"

definition formula_keywords :: "string list" where
  "formula_keywords =
     [''abs'', ''max'', ''min'', ''int'', ''round'', ''True'', ''False'', ''None'',
      ''if'', ''else'', ''and'', ''or'', ''not'', ''in'', ''is'']"

definition extract_dependencies :: "string \<Rightarrow> string list" where
  "extract_dependencies expression =
     remdups (filter (\<lambda>m. m \<notin> set formula_keywords)
       (filter (\<lambda>w. case w of [] \<Rightarrow> False | c # _ \<Rightarrow> ident_start c)
          (word_runs [] expression)))"

text \<open>
  \<open>_detect_cycles\<close>: depth-first search that hands a copy of \<open>visited\<close> and of \<open>path\<close> to
  every recursive call. The result is the exception raised, if any; the first call of the
  loop that raises ends the search.
\<close>

fun first_raised :: "py_exn option list \<Rightarrow> py_exn option" where
  "first_raised [] = None"
| "first_raised (None # rs) = first_raised rs"
| "first_raised (Some e # rs) = Some e"

function detect_cycles ::
  "(string, string list) dict \<Rightarrow> string \<Rightarrow> string set \<Rightarrow> string list \<Rightarrow> py_exn option" where
  "detect_cycles deps start_field visited path =
     (if start_field \<in> visited
      then Some (ValueError (Circular_dependency_detected (path @ [start_field])))
      else case dict_get deps start_field of
             None \<Rightarrow> None
           | Some ds \<Rightarrow>
               first_raised
                 (map (\<lambda>dep_field.
                         detect_cycles deps dep_field (insert start_field visited)
                           (path @ [start_field]))
                    ds))"
  by pat_completeness auto
termination
proof (relation "measure (\<lambda>(deps, start_field, visited, path).
                    card (dom (map_of deps) - visited))", goal_cases)
  case 1
  show ?case by simp
next
  case (2 deps start_field visited path ds dep_field)
  have fin: "finite (dom (map_of deps) - visited)"
    by (simp add: finite_dom_map_of)
  have mem: "start_field \<in> dom (map_of deps) - visited"
    using 2 by (auto simp: dict_get_def)
  have eq: "dom (map_of deps) - insert start_field visited
          = (dom (map_of deps) - visited) - {start_field}"
    by auto
  have "card ((dom (map_of deps) - visited) - {start_field})
          < card (dom (map_of deps) - visited)"
    using fin mem by (rule card_Diff1_less)
  then show ?case by (simp add: eq)
qed

declare detect_cycles.simps [simp del]

text \<open>
  \<open>register_formula\<close> stores the formula in the three tables, then searches for a cycle
  from the new name; when the search raises, the three entries of the name are deleted and
  the exception is raised again. The result pairs the exception (if any) with the engine
  as the call leaves it.
\<close>

definition register_formula ::
  "formula_engine \<Rightarrow> string \<Rightarrow> string \<Rightarrow> py_exn option \<times> formula_engine" where
  "register_formula fe field_name expression =
     (let fe1 = fe\<lparr>formulas := dict_set (formulas fe) field_name expression,
                   dirty_flags := dict_set (dirty_flags fe) field_name True,
                   dependencies := dict_set (dependencies fe) field_name
                                     (extract_dependencies expression)\<rparr>
      in case detect_cycles (dependencies fe1) field_name {} [] of
           None \<Rightarrow> (None, fe1)
         | Some e \<Rightarrow>
             (Some e,
              fe1\<lparr>formulas := dict_del (formulas fe1) field_name,
                  dirty_flags := dict_del (dirty_flags fe1) field_name,
                  dependencies := dict_del (dependencies fe1) field_name\<rparr>))"

definition registered :: "formula_engine \<Rightarrow> string \<Rightarrow> bool" where
  "registered fe n \<longleftrightarrow>
     n \<in> set (dict_keys (formulas fe)) \<or> n \<in> set (dict_keys (dirty_flags fe))
       \<or> n \<in> set (dict_keys (dependencies fe))"


subsection \<open>Evaluation of formulas\<close>

text \<open>
  The operator table that \<open>FormulaEngine.__init__\<close> hands to \<open>simpleeval\<close>. Every operator
  first turns both operands into decimals with \<open>Decimal(str(x))\<close>, which fails on a
  truth value (the result of a comparison).
\<close>

definition to_decimal :: "val \<Rightarrow> py_exn + decimal" where
  "to_decimal v = (case v of VDec d \<Rightarrow> Inr d | VBool b \<Rightarrow> Inl (InvalidOperation Conversion_syntax))"

definition safe_op_wrapper ::
  "(decimal \<Rightarrow> decimal \<Rightarrow> py_exn + val) \<Rightarrow> val \<Rightarrow> val \<Rightarrow> py_exn + val" where
  "safe_op_wrapper op_func a b =
     (case to_decimal a of
        Inl e \<Rightarrow> Inl e
      | Inr da \<Rightarrow> (case to_decimal b of Inl e \<Rightarrow> Inl e | Inr db \<Rightarrow> op_func da db))"

text \<open>
  \<open>safe_div\<close>, used for both \<open>/\<close> and \<open>//\<close>: a zero divisor raises \<open>ZeroDivisionError\<close>,
  which the function lets through; any other exception (an operand that is no decimal)
  is swallowed and the result is \<open>Decimal("0")\<close>.
\<close>

definition safe_div :: "val \<Rightarrow> val \<Rightarrow> py_exn + val" where
  "safe_div a b =
     (case to_decimal a of
        Inl e \<Rightarrow> Inr (VDec (Decimal 0 0))
      | Inr dec_a \<Rightarrow>
          (case to_decimal b of
             Inl e \<Rightarrow> Inr (VDec (Decimal 0 0))
           | Inr dec_b \<Rightarrow>
               if dec_eq dec_b (Decimal 0 0) then Inl (ZeroDivisionError Division_by_zero)
               else Inr (VDec (dec_div dec_a dec_b))))"

definition safe_pow :: "externals \<Rightarrow> val \<Rightarrow> val \<Rightarrow> py_exn + val" where
  "safe_pow X x y =
     (case to_decimal x of
        Inl e \<Rightarrow> Inl e
      | Inr base \<Rightarrow>
          (case to_decimal y of
             Inl e \<Rightarrow> Inl e
           | Inr ex \<Rightarrow>
               if dec_lt (Decimal 100 0) ex
               then Inl (ValueError (Exponent_exceeds_safety_limit ex))
               else (case decimal_power X base ex of
                       Inl e \<Rightarrow> Inl e | Inr r \<Rightarrow> Inr (VDec r))))"

definition dec_mod :: "decimal \<Rightarrow> decimal \<Rightarrow> py_exn + val" where
  "dec_mod a b =
     (if coeff b = 0 then Inl (InvalidOperation Decimal_division_by_zero)
      else case dec_divide a b of
             None \<Rightarrow> Inl (InvalidOperation Division_impossible)
           | Some (q, r) \<Rightarrow> Inr (VDec (dec_fix r)))"

definition eval_operators :: "externals \<Rightarrow> binop \<Rightarrow> val \<Rightarrow> val \<Rightarrow> py_exn + val" where
  "eval_operators X op =
     (case op of
        Pow \<Rightarrow> safe_pow X
      | Add \<Rightarrow> safe_op_wrapper (\<lambda>a b. Inr (VDec (dec_add a b)))
      | Sub \<Rightarrow> safe_op_wrapper (\<lambda>a b. Inr (VDec (dec_sub a b)))
      | Mult \<Rightarrow> safe_op_wrapper (\<lambda>a b. Inr (VDec (dec_mul a b)))
      | Div \<Rightarrow> safe_div
      | FloorDiv \<Rightarrow> safe_div
      | Mod \<Rightarrow> safe_op_wrapper dec_mod
      | Eq \<Rightarrow> safe_op_wrapper (\<lambda>a b. Inr (VBool (dec_eq a b)))
      | NotEq \<Rightarrow> safe_op_wrapper (\<lambda>a b. Inr (VBool (\<not> dec_eq a b)))
      | Lt \<Rightarrow> safe_op_wrapper (\<lambda>a b. Inr (VBool (dec_lt a b)))
      | LtE \<Rightarrow> safe_op_wrapper (\<lambda>a b. Inr (VBool (dec_le a b)))
      | Gt \<Rightarrow> safe_op_wrapper (\<lambda>a b. Inr (VBool (dec_lt b a)))
      | GtE \<Rightarrow> safe_op_wrapper (\<lambda>a b. Inr (VBool (dec_le b a))))"

text \<open>
  \<open>simple_eval\<close>: a name is looked up in the names handed over, a binary operator
  evaluates its left operand, then its right operand, then applies the table.
\<close>

fun eval_expr :: "externals \<Rightarrow> (string, decimal) dict \<Rightarrow> expr \<Rightarrow> py_exn + val" where
  "eval_expr X names (Num d) = Inr (VDec d)"
| "eval_expr X names (Name n) =
     (case dict_get names n of
        None \<Rightarrow> Inl (InvalidExpression (Name_not_defined n))
      | Some d \<Rightarrow> Inr (VDec d))"
| "eval_expr X names (BinOp l op r) =
     (case eval_expr X names l of
        Inl e \<Rightarrow> Inl e
      | Inr a \<Rightarrow>
          (case eval_expr X names r of
             Inl e \<Rightarrow> Inl e
           | Inr b \<Rightarrow> eval_operators X op a b))"

definition simple_eval :: "externals \<Rightarrow> string \<Rightarrow> (string, decimal) dict \<Rightarrow> py_exn + val" where
  "simple_eval X expression names =
     (case parse_expr X expression of
        None \<Rightarrow> Inl (InvalidExpression Invalid_expression)
      | Some tree \<Rightarrow> eval_expr X names tree)"

text \<open>
  \<open>mark_dirty\<close> flags every formula whose dependencies contain the field.
\<close>

definition mark_dirty :: "formula_engine \<Rightarrow> string \<Rightarrow> formula_engine" where
  "mark_dirty fe base_field =
     fe\<lparr>dirty_flags :=
          foldl (\<lambda>flags (formula_name, deps).
                   if base_field \<in> set deps then dict_set flags formula_name True else flags)
            (dirty_flags fe) (dependencies fe)\<rparr>"

text \<open>
  \<open>recalculate\<close>. The context holds decimals in every call the engine makes, so its
  conversion to decimals is the identity. The evaluation and the conversion of the result
  run inside one \<open>try\<close>, whose handler turns every exception into a \<open>ValueError\<close> that
  quotes the formula and the text of the exception. A successful evaluation clears the
  dirty flag of the formula.
\<close>

definition recalculate ::
  "externals \<Rightarrow> formula_engine \<Rightarrow> string \<Rightarrow> (string, decimal) dict
     \<Rightarrow> (py_exn + decimal) \<times> formula_engine" where
  "recalculate X fe field_name context =
     (case dict_get (formulas fe) field_name of
        None \<Rightarrow> (Inl (ValueError (Unknown_formula field_name)), fe)
      | Some expression \<Rightarrow>
          (case dict_get (dependencies fe) field_name of
             None \<Rightarrow> (Inl (KeyError (Key_missing field_name)), fe)
           | Some deps \<Rightarrow>
               let missing_deps = filter (\<lambda>d. d \<notin> set (dict_keys context)) deps
               in if missing_deps \<noteq> []
                  then (Inl (KeyError (Missing_required_stats field_name missing_deps)), fe)
                  else (case (case simple_eval X expression context of
                                Inl e \<Rightarrow> Inl e
                              | Inr result \<Rightarrow> to_decimal result) of
                          Inl e \<Rightarrow>
                            (Inl (ValueError
                                    (Error_evaluating_formula field_name expression (str_exn e))),
                             fe)
                        | Inr final_result \<Rightarrow>
                            (Inr final_result,
                             fe\<lparr>dirty_flags := dict_set (dirty_flags fe) field_name False\<rparr>))))"

text \<open>
  \<open>get_all_computed_stats\<close> evaluates every formula in the order of registration; the
  first exception ends the pass.
\<close>

fun computed_stats_loop ::
  "externals \<Rightarrow> formula_engine \<Rightarrow> (string, decimal) dict \<Rightarrow> string list
     \<Rightarrow> (string, decimal) dict \<Rightarrow> (py_exn + (string, decimal) dict) \<times> formula_engine" where
  "computed_stats_loop X fe context [] results = (Inr results, fe)"
| "computed_stats_loop X fe context (field_name # names) results =
     (case recalculate X fe field_name context of
        (Inl e, fe') \<Rightarrow> (Inl e, fe')
      | (Inr v, fe') \<Rightarrow>
          computed_stats_loop X fe' context names (dict_set results field_name v))"

definition get_all_computed_stats ::
  "externals \<Rightarrow> formula_engine \<Rightarrow> (string, decimal) dict
     \<Rightarrow> (py_exn + (string, decimal) dict) \<times> formula_engine" where
  "get_all_computed_stats X fe context =
     computed_stats_loop X fe context (dict_keys (formulas fe)) []"

section \<open>TemporalState (logic/temporal\_state.py)\<close>

record buff =
  buff_id :: string
  buff_name :: string
  effects :: "(string, decimal) dict"
  expiry_type :: string
  expiry_value :: pyval
  description :: string

record temporal_state =
  active_buffs :: "buff list"
  buff_id_counter :: nat


text \<open>The identifier \<^verbatim>\<open>f"buff_{n:03d}"\<close>: the counter padded with zeros to three digits.\<close>

definition make_buff_id :: "nat \<Rightarrow> string" where
  "make_buff_id n = ''buff_'' @ replicate (3 - length (str_nat n)) CHR ''0'' @ str_nat n"

text \<open>
  \<open>Buff.__post_init__\<close> reads every effect value as a decimal; the first value that is no
  decimal raises.
\<close>

fun convert_effects :: "(string, string) dict \<Rightarrow> (string, decimal) dict option" where
  "convert_effects [] = Some []"
| "convert_effects ((k, v) # kvs) =
     (case Decimal_of_str v of
        None \<Rightarrow> None
      | Some d \<Rightarrow> map_option (\<lambda>r. (k, d) # r) (convert_effects kvs))"

text \<open>
  \<open>add_buff\<close>: a buff that is not permanent needs an expiry value. The counter is
  incremented before the buff is built, so it keeps its increment when the effects are
  refused.
\<close>

definition add_buff ::
  "temporal_state \<Rightarrow> string \<Rightarrow> (string, string) dict \<Rightarrow> string \<Rightarrow> pyval \<Rightarrow> string
     \<Rightarrow> (py_exn + string) \<times> temporal_state" where
  "add_buff ts name effs etype evalue descr =
     (if etype \<noteq> ''permanent'' \<and> evalue = PNone
      then (Inl (ValueError (Expiry_value_required etype)), ts)
      else let n = buff_id_counter ts + 1;
               ts1 = ts\<lparr>buff_id_counter := n\<rparr>;
               new_id = make_buff_id n
           in case convert_effects effs of
                None \<Rightarrow> (Inl (InvalidOperation Conversion_syntax), ts1)
              | Some es \<Rightarrow>
                  (Inr new_id,
                   ts1\<lparr>active_buffs := active_buffs ts1 @
                         [\<lparr>buff_id = new_id, buff_name = name, effects = es,
                           expiry_type = etype, expiry_value = evalue,
                           description = descr\<rparr>]\<rparr>))"

text \<open>
  The expiry test of one buff in \<open>check_expiry\<close>. Comparing the integer counter with an
  expiry value that is no integer raises \<open>TypeError\<close>. For a buff of type \<open>time\<close> every
  exception is swallowed and the buff is kept.
\<close>

definition is_expired ::
  "externals \<Rightarrow> buff \<Rightarrow> int \<Rightarrow> int \<Rightarrow> string option \<Rightarrow> py_exn + bool" where
  "is_expired X b current_chapter word_count timestamp =
     (if expiry_type b = ''chapter''
      then (case expiry_value b of
              PInt v \<Rightarrow> Inr (v \<le> current_chapter)
            | _ \<Rightarrow> Inl (TypeError Unsupported_operand))
      else if expiry_type b = ''word_count''
      then (case expiry_value b of
              PInt v \<Rightarrow> Inr (v \<le> word_count)
            | _ \<Rightarrow> Inl (TypeError Unsupported_operand))
      else if expiry_type b = ''time''
      then (case timestamp of
              None \<Rightarrow> Inr False
            | Some t \<Rightarrow>
                if t = [] then Inr False
                else (case (fromisoformat X t, expiry_value b) of
                        (Some current_time, PStr s) \<Rightarrow>
                          (case fromisoformat X s of
                             Some expiry_time \<Rightarrow> Inr (expiry_time \<le> current_time)
                           | None \<Rightarrow> Inr False)
                      | _ \<Rightarrow> Inr False))
      else Inr False)"

fun expiry_loop ::
  "externals \<Rightarrow> buff list \<Rightarrow> int \<Rightarrow> int \<Rightarrow> string option
     \<Rightarrow> py_exn + (string list \<times> buff list)" where
  "expiry_loop X [] current_chapter word_count timestamp = Inr ([], [])"
| "expiry_loop X (b # bs) current_chapter word_count timestamp =
     (case is_expired X b current_chapter word_count timestamp of
        Inl e \<Rightarrow> Inl e
      | Inr ex \<Rightarrow>
          (case expiry_loop X bs current_chapter word_count timestamp of
             Inl e \<Rightarrow> Inl e
           | Inr (expired_ids, buffs_to_keep) \<Rightarrow>
               if ex then Inr (buff_id b # expired_ids, buffs_to_keep)
               else Inr (expired_ids, b # buffs_to_keep)))"

text \<open>
  \<open>check_expiry\<close> returns the identifiers of the expired buffs and keeps the others. The
  list of active buffs is assigned only at the end, so an exception leaves it as it was.
\<close>

definition check_expiry ::
  "externals \<Rightarrow> temporal_state \<Rightarrow> int \<Rightarrow> int \<Rightarrow> string option
     \<Rightarrow> (py_exn + string list) \<times> temporal_state" where
  "check_expiry X ts current_chapter word_count timestamp =
     (case expiry_loop X (active_buffs ts) current_chapter word_count timestamp of
        Inl e \<Rightarrow> (Inl e, ts)
      | Inr (expired_ids, buffs_to_keep) \<Rightarrow>
          (Inr expired_ids, ts\<lparr>active_buffs := buffs_to_keep\<rparr>))"

text \<open>\<open>get_active_effects\<close> adds up the effects of all active buffs per stat.\<close>

definition add_effect :: "(string, decimal) dict \<Rightarrow> string \<times> decimal \<Rightarrow> (string, decimal) dict" where
  "add_effect aggregated sv =
     (case dict_get aggregated (fst sv) of
        Some cur \<Rightarrow> dict_set aggregated (fst sv) (dec_add cur (snd sv))
      | None \<Rightarrow> dict_set aggregated (fst sv) (snd sv))"

definition get_active_effects :: "temporal_state \<Rightarrow> (string, decimal) dict" where
  "get_active_effects ts = foldl add_effect [] (concat (map effects (active_buffs ts)))"

section \<open>RuleEngine (logic/rule\_engine.py)\<close>

record rule =
  rule_id :: string
  target_type :: string
  operation :: string
  modifier :: decimal
  condition :: "string option"
  rule_description :: string

record rule_engine =
  active_rules :: "rule list"
  rule_id_counter :: nat




text \<open>The audit entry that \<open>apply_rules\<close> appends to an event for every rule applied.\<close>

record applied_rule =
  ar_rule_id :: string
  ar_description :: string
  original_value :: string
  modified_value :: string

section \<open>LedgerEngine (logic/ledger\_engine.py)\<close>

subsection \<open>Events, derived state and the engine\<close>

text \<open>
  An event is a dictionary with a fixed set of keys that the engine reads or writes. A
  field of the record is \<open>None\<close> when the key is missing; for the numeric fields \<open>value\<close>,
  \<open>qty\<close> and \<open>expiry_value\<close> a key that is present with JSON \<open>null\<close> is \<open>Some PNone\<close>. The
  annotations \<open>requires_manual_fix\<close> and \<open>is_implicit\<close> are only ever set to \<open>True\<close>, and
  \<open>logs\<close> and \<open>applied_rules\<close> are only ever appended to, so a missing key is \<open>False\<close> or
  the empty list.
\<close>

record event =
  e_event_id :: "int option"
  e_action :: "string option"
  e_type :: "string option"
  e_value :: "pyval option"
  e_unit :: "string option"
  e_name :: "string option"
  e_qty :: "pyval option"
  e_effects :: "(string, pyval) dict option"
  e_expiry_type :: "string option"
  e_expiry_value :: "pyval option"
  e_description :: "string option"
  e_reason :: "string option"
  e_word_count_delta :: "int option"
  e_timestamp :: "string option"
  requires_manual_fix :: bool
  is_implicit :: bool
  logs :: "message list"
  original_name :: "string option"
  applied_rules :: "applied_rule list"

definition blank_event :: event where
  "blank_event =
     \<lparr>e_event_id = None, e_action = None, e_type = None, e_value = None, e_unit = None,
      e_name = None, e_qty = None, e_effects = None, e_expiry_type = None,
      e_expiry_value = None, e_description = None, e_reason = None,
      e_word_count_delta = None, e_timestamp = None, requires_manual_fix = False,
      is_implicit = False, logs = [], original_name = None, applied_rules = []\<rparr>"

text \<open>The state that \<open>reduce\<close> computes; \<open>_get_initial_state\<close> is its starting value.\<close>

record state =
  gold_cp :: decimal
  inventory :: "(string option, decimal) dict"
  stats :: "(string option, decimal) dict"
  computed_stats :: "(string, decimal) dict"
  buffs :: "string list"
  alerts :: "message list"

definition get_initial_state :: state where
  "get_initial_state =
     \<lparr>gold_cp = Decimal 0 0, inventory = [], stats = [], computed_stats = [], buffs = [],
      alerts = []\<rparr>"

text \<open>The temporal context of a replay.\<close>

record replay_context =
  ctx_chapter :: int
  ctx_word_count :: int
  ctx_timestamp :: "string option"

definition initial_context :: replay_context where
  "initial_context = \<lparr>ctx_chapter = 0, ctx_word_count = 0, ctx_timestamp = None\<rparr>"

text \<open>
  The engine. The cache of \<open>get_state\<close> and the file that \<open>_auto_save\<close> writes are outside
  the model: none of the operations below reads them.
\<close>

record ledger_engine =
  strict_mode :: bool
  events :: "event list"
  event_id_counter :: int
  unit_registry :: world_schema
  formula_engine :: formula_engine
  temporal_state :: temporal_state
  rule_engine :: rule_engine


definition UNROBUST_STATS :: "string list" where
  "UNROBUST_STATS =
     [''XP'', ''EXPERIENCE'',
      ''GOLD'', ''GP'', ''SP'', ''CP'', ''CREDITS'', ''MONEY'', ''USD'', ''$'', ''CENT'',
      ''HEALTH'', ''HP'', ''LIFE'',
      ''MANA'', ''MP'', ''MAGIC'',
      ''STAMINA'', ''ENERGY'',
      ''FATIGUE'', ''DEBT'', ''STRESS'',
      ''DAMAGE'', ''DEFENSE'', ''ATTACK'', ''POWER'']"

subsection \<open>Sanitising numbers and names\<close>

text \<open>
  \<open>_clean_number\<close>: commas and percent signs are removed, then the first match of
  \<^verbatim>\<open>-?\d+(\.\d+)?\<close> is returned, or \<open>"0"\<close> when there is none. The match is always the text
  of a finite decimal, so the check with \<open>is_finite\<close> never fires.
\<close>

definition starts_with_digit :: "string \<Rightarrow> bool" where
  "starts_with_digit s = (case s of c # _ \<Rightarrow> is_digit c | [] \<Rightarrow> False)"

definition match_number :: "string \<Rightarrow> string" where
  "match_number s =
     (let ip = takeWhile is_digit s; r = dropWhile is_digit s
      in case r of
           c # cs \<Rightarrow> if c = CHR ''.'' \<and> starts_with_digit cs
                     then ip @ [CHR ''.''] @ takeWhile is_digit cs else ip
         | [] \<Rightarrow> ip)"

fun search_number :: "string \<Rightarrow> string option" where
  "search_number [] = None"
| "search_number (c # cs) =
     (if is_digit c then Some (match_number (c # cs))
      else if c = CHR ''-'' \<and> starts_with_digit cs then Some (c # match_number cs)
      else search_number cs)"

definition clean_number :: "string \<Rightarrow> string" where
  "clean_number value_str =
     (case search_number (remove_char CHR ''%'' (remove_char CHR '','' value_str)) of
        Some val_str \<Rightarrow> val_str
      | None \<Rightarrow> ''0'')"

text \<open>
  \<open>normalize_entity_name\<close>. The known names are the keys of the inventory; a key that is
  \<open>None\<close> makes \<open>re.sub\<close> raise \<open>TypeError\<close> when the loop reaches it.
\<close>

definition skeleton :: "string \<Rightarrow> string" where
  "skeleton s = filter (\<lambda>c. \<not> is_digit c) s"

fun candidates_loop ::
  "externals \<Rightarrow> string \<Rightarrow> string option list \<Rightarrow> py_exn + (rat \<times> string) list" where
  "candidates_loop X raw_name [] = Inr []"
| "candidates_loop X raw_name (None # names) = Inl (TypeError Expected_string)"
| "candidates_loop X raw_name (Some name # names) =
     (case candidates_loop X raw_name names of
        Inl e \<Rightarrow> Inl e
      | Inr cands \<Rightarrow>
          if skeleton raw_name = skeleton name \<and> raw_name \<noteq> name then Inr cands
          else let ratio = seq_ratio X (lower raw_name) (lower name)
               in if 9 / 10 < ratio then Inr ((ratio, name) # cands) else Inr cands)"

fun insort_ratio :: "rat \<times> string \<Rightarrow> (rat \<times> string) list \<Rightarrow> (rat \<times> string) list" where
  "insort_ratio x [] = [x]"
| "insort_ratio x (y # ys) =
     (if fst y \<le> fst x then x # y # ys else y # insort_ratio x ys)"

definition normalize_entity_name ::
  "externals \<Rightarrow> string option \<Rightarrow> string option list \<Rightarrow> py_exn + (string option \<times> bool)" where
  "normalize_entity_name X raw_name existing_names =
     (case raw_name of
        None \<Rightarrow> Inr (raw_name, False)
      | Some raw \<Rightarrow>
          if raw = [] \<or> existing_names = [] then Inr (raw_name, False)
          else if raw_name \<in> set existing_names then Inr (raw_name, False)
          else (case candidates_loop X raw existing_names of
                  Inl e \<Rightarrow> Inl e
                | Inr cands \<Rightarrow>
                    (case foldr insort_ratio cands [] of
                       [] \<Rightarrow> Inr (raw_name, False)
                     | (best_ratio, best_name) # rest \<Rightarrow>
                         if best_ratio < 9 / 10 then Inr (raw_name, False)
                         else (case rest of
                                 (second_ratio, second_name) # _ \<Rightarrow>
                                   if best_ratio - second_ratio < 1 / 10
                                   then Inr (raw_name, True)
                                   else Inr (Some best_name, False)
                               | [] \<Rightarrow> Inr (Some best_name, False)))))"

subsection \<open>Applying the rules to a candidate event\<close>

text \<open>
  \<open>RuleEngine.apply_rules\<close> works on a deep copy of the event. The rules whose target type
  is the type of the event or \<open>any\<close> are applied in order of registration to the field
  \<open>value\<close>; a rule with a condition is skipped. Reading the value as a decimal raises
  when it is no decimal.
\<close>

fun apply_rules_loop :: "rule list \<Rightarrow> event \<Rightarrow> py_exn + event" where
  "apply_rules_loop [] modified_event = Inr modified_event"
| "apply_rules_loop (r # rs) modified_event =
     (if condition r \<noteq> None \<and> condition r \<noteq> Some []
      then apply_rules_loop rs modified_event
      else case e_value modified_event of
             None \<Rightarrow> apply_rules_loop rs modified_event
           | Some v \<Rightarrow>
               (case Decimal_of_str (str_pyval v) of
                  None \<Rightarrow> Inl (InvalidOperation Conversion_syntax)
                | Some current_value \<Rightarrow>
                    (case (if operation r = ''multiply''
                           then Some (dec_mul current_value (modifier r))
                           else if operation r = ''add''
                           then Some (dec_add current_value (modifier r))
                           else if operation r = ''set'' then Some (modifier r)
                           else None) of
                       None \<Rightarrow> apply_rules_loop rs modified_event
                     | Some new_value \<Rightarrow>
                         apply_rules_loop rs
                           (modified_event
                              \<lparr>e_value := Some (PStr (str_decimal new_value)),
                               applied_rules := applied_rules modified_event @
                                 [\<lparr>ar_rule_id = rule_id r,
                                   ar_description = rule_description r,
                                   original_value = str_decimal current_value,
                                   modified_value = str_decimal new_value\<rparr>]\<rparr>))))"

definition rule_matches :: "event \<Rightarrow> rule \<Rightarrow> bool" where
  "rule_matches ev r \<longleftrightarrow>
     target_type r = (case e_type ev of None \<Rightarrow> [] | Some t \<Rightarrow> t) \<or> target_type r = ''any''"

definition apply_rules :: "rule_engine \<Rightarrow> event \<Rightarrow> py_exn + event" where
  "apply_rules re ev = apply_rules_loop (filter (rule_matches ev) (active_rules re)) ev"

subsection \<open>Applying one event\<close>

text \<open>
  \<open>_apply_event\<close> changes three things: the state, the event itself (the annotations are
  written into the dictionary that the log holds) and the engine (a buff is added to the
  temporal state, a stat change marks formulas dirty). The model returns all three; when
  the source raises, the event and the engine are returned as they are at that moment.
\<close>

definition apply_gold ::
  "ledger_engine \<Rightarrow> state \<Rightarrow> event \<Rightarrow> (py_exn + state) \<times> event \<times> ledger_engine" where
  "apply_gold eng st ev =
     (let value_raw = (case e_value ev of None \<Rightarrow> PStr ''0'' | Some v \<Rightarrow> v)
      in if indeterminate value_raw then (Inr st, ev\<lparr>requires_manual_fix := True\<rparr>, eng)
         else let unit = (case e_unit ev of None \<Rightarrow> ''CP'' | Some u \<Rightarrow> u);
                  clean_val = clean_number (str_pyval value_raw)
              in case to_base (unit_registry eng) clean_val unit of
                   Inl e \<Rightarrow> (Inl e, ev, eng)
                 | Inr cp_value \<Rightarrow>
                     if e_action ev = Some ''gain''
                     then (Inr (st\<lparr>gold_cp := dec_add (gold_cp st) cp_value\<rparr>), ev, eng)
                     else if e_action ev = Some ''lose''
                     then (if dec_lt (gold_cp st) cp_value
                           then (if strict_mode eng
                                 then (Inl (ValueError
                                         (Insufficient_gold
                                            (dec_div cp_value (Decimal 100 0))
                                            (dec_div (gold_cp st) (Decimal 100 0)))),
                                       ev, eng)
                                 else (Inr (st\<lparr>gold_cp := dec_sub (gold_cp st) cp_value\<rparr>),
                                       ev\<lparr>is_implicit := True,
                                          logs := logs ev @ [Gold_underflow_allowed]\<rparr>,
                                       eng))
                           else (Inr (st\<lparr>gold_cp := dec_sub (gold_cp st) cp_value\<rparr>),
                                 ev, eng))
                     else if e_action ev = Some ''set''
                     then (Inr (st\<lparr>gold_cp := cp_value\<rparr>), ev, eng)
                     else (Inr st, ev, eng))"

text \<open>
  An item event, first part: the name is matched against the keys of the inventory and
  the event is annotated with the outcome. The result is the name under which the
  quantity is booked, and the event.
\<close>

definition match_item_name ::
  "externals \<Rightarrow> state \<Rightarrow> event \<Rightarrow> py_exn + (string option \<times> event)" where
  "match_item_name X st ev =
     (let raw_name = e_name ev; known_keys = dict_keys (inventory st)
      in case normalize_entity_name X raw_name known_keys of
           Inl e \<Rightarrow> Inl e
         | Inr (matched, is_ambiguous) \<Rightarrow>
             if is_ambiguous
             then Inr (raw_name,
                       ev\<lparr>requires_manual_fix := True,
                          logs := logs ev @
                            [Ambiguous_match (case raw_name of None \<Rightarrow> [] | Some r \<Rightarrow> r)]\<rparr>)
             else if matched \<noteq> raw_name
             then Inr (matched,
                       ev\<lparr>original_name := raw_name, e_name := matched,
                          logs := logs ev @
                            [Fuzzy_matched (case raw_name of None \<Rightarrow> [] | Some r \<Rightarrow> r)
                               (case matched of None \<Rightarrow> [] | Some m \<Rightarrow> m)]\<rparr>)
             else Inr (matched, ev))"

text \<open>An item event, second part: the quantity is booked under the name.\<close>

definition book_item ::
  "ledger_engine \<Rightarrow> state \<Rightarrow> string option \<Rightarrow> event
     \<Rightarrow> (py_exn + state) \<times> event \<times> ledger_engine" where
  "book_item eng st name ev1 =
     (let qty_raw = (case e_qty ev1 of None \<Rightarrow> PInt 1 | Some q \<Rightarrow> q)
      in if indeterminate qty_raw
         then (Inr st, ev1\<lparr>requires_manual_fix := True\<rparr>, eng)
         else case Decimal_of_str (clean_number (str_pyval qty_raw)) of
                None \<Rightarrow> (Inl (InvalidOperation Conversion_syntax), ev1, eng)
              | Some qty \<Rightarrow>
                  if dec_le qty (Decimal 0 0) \<and> strict_mode eng
                  then (Inl (ValueError (Invalid_quantity qty)), ev1, eng)
                  else let current_qty =
                             (case dict_get (inventory st) name of
                                None \<Rightarrow> Decimal 0 0 | Some q \<Rightarrow> q)
                       in if e_action ev1 = Some ''gain''
                          then (Inr (st\<lparr>inventory :=
                                       dict_set (inventory st) name
                                         (dec_add current_qty qty)\<rparr>),
                                ev1, eng)
                          else if e_action ev1 = Some ''lose''
                          then (if dec_lt current_qty qty
                                then (if strict_mode eng
                                      then (Inl (ValueError
                                              (Insufficient_item name qty current_qty)),
                                            ev1, eng)
                                      else (Inr (st\<lparr>inventory :=
                                                   dict_set (inventory st) name
                                                     (dec_sub current_qty qty)\<rparr>),
                                            ev1\<lparr>is_implicit := True,
                                                logs := logs ev1 @
                                                  [Item_underflow_allowed name]\<rparr>,
                                            eng))
                                else (Inr (st\<lparr>inventory :=
                                             dict_set (inventory st) name
                                               (dec_sub current_qty qty)\<rparr>),
                                      ev1, eng))
                          else (Inr st, ev1, eng))"

definition apply_item ::
  "externals \<Rightarrow> ledger_engine \<Rightarrow> state \<Rightarrow> event
     \<Rightarrow> (py_exn + state) \<times> event \<times> ledger_engine" where
  "apply_item X eng st ev =
     (case match_item_name X st ev of
        Inl e \<Rightarrow> (Inl e, ev, eng)
      | Inr (name, ev1) \<Rightarrow> book_item eng st name ev1)"

text \<open>
  A stat change marks the formulas that depend on the stat as dirty. A stat without a name
  is stored under the key \<open>None\<close>, which no dependency set contains.
\<close>

definition apply_stat ::
  "ledger_engine \<Rightarrow> state \<Rightarrow> event \<Rightarrow> (py_exn + state) \<times> event \<times> ledger_engine" where
  "apply_stat eng st ev =
     (let name = e_name ev;
          val_raw = (case e_value ev of None \<Rightarrow> PInt 0 | Some v \<Rightarrow> v)
      in if indeterminate val_raw then (Inr st, ev\<lparr>requires_manual_fix := True\<rparr>, eng)
         else case Decimal_of_str (clean_number (str_pyval val_raw)) of
                None \<Rightarrow> (Inl (InvalidOperation Conversion_syntax), ev, eng)
              | Some v \<Rightarrow>
                  let current_value =
                        (case dict_get (stats st) name of None \<Rightarrow> Decimal 0 0 | Some c \<Rightarrow> c);
                      st1 = (if e_action ev = Some ''gain''
                             then st\<lparr>stats := dict_set (stats st) name
                                                  (dec_add current_value v)\<rparr>
                             else if e_action ev = Some ''lose''
                             then st\<lparr>stats := dict_set (stats st) name
                                                  (dec_sub current_value v)\<rparr>
                             else if e_action ev = Some ''set''
                             then st\<lparr>stats := dict_set (stats st) name v\<rparr>
                             else st);
                      eng1 = (case name of
                                None \<Rightarrow> eng
                              | Some n \<Rightarrow>
                                  eng\<lparr>formula_engine := mark_dirty (formula_engine eng) n\<rparr>)
                  in (Inr st1, ev, eng1))"

text \<open>
  The effects of a buff event: every value is cleaned; the cleaned text is always a
  decimal, so no effect is dropped by the \<open>try\<close> of the source.
\<close>

fun sanitize_effects :: "(string, pyval) dict \<Rightarrow> (string, string) dict" where
  "sanitize_effects [] = []"
| "sanitize_effects ((stat_name, stat_value) # rest) =
     (let clean_val = clean_number (str_pyval stat_value)
      in case Decimal_of_str clean_val of
           Some d \<Rightarrow> (stat_name, clean_val) # sanitize_effects rest
         | None \<Rightarrow> sanitize_effects rest)"

text \<open>
  A buff event without expiry data gets defaults: the type \<open>chapter\<close>, and the value 1
  unless the buff is permanent. The defaults are written into the event.
\<close>

definition default_expiry :: "event \<Rightarrow> event" where
  "default_expiry ev =
     (let ev1 = (if e_expiry_type ev = None \<or> e_expiry_type ev = Some []
                 then ev\<lparr>e_expiry_type := Some ''chapter''\<rparr> else ev)
      in if falsy (e_expiry_value ev1) \<and> e_expiry_type ev1 \<noteq> Some ''permanent''
         then ev1\<lparr>e_expiry_value := Some (PInt 1)\<rparr> else ev1)"

definition apply_buff ::
  "ledger_engine \<Rightarrow> state \<Rightarrow> event \<Rightarrow> (py_exn + state) \<times> event \<times> ledger_engine" where
  "apply_buff eng st ev =
     (if e_action ev = Some ''gain''
      then let ev2 = default_expiry ev;
               raw_effects = (case e_effects ev2 of None \<Rightarrow> [] | Some es \<Rightarrow> es);
               sanitized_effects = sanitize_effects raw_effects
           in case add_buff (temporal_state eng)
                     (case e_name ev2 of None \<Rightarrow> ''Unknown Buff'' | Some n \<Rightarrow> n)
                     sanitized_effects
                     (case e_expiry_type ev2 of None \<Rightarrow> ''permanent'' | Some t \<Rightarrow> t)
                     (case e_expiry_value ev2 of None \<Rightarrow> PNone | Some v \<Rightarrow> v)
                     (case e_description ev2 of None \<Rightarrow> [] | Some d \<Rightarrow> d) of
                (Inl e, ts) \<Rightarrow> (Inl e, ev2, eng\<lparr>temporal_state := ts\<rparr>)
              | (Inr new_id, ts) \<Rightarrow>
                  (Inr (if new_id \<in> set (buffs st) then st
                        else st\<lparr>buffs := buffs st @ [new_id]\<rparr>),
                   ev2, eng\<lparr>temporal_state := ts\<rparr>)
      else (Inr st, ev, eng))"

definition apply_event ::
  "externals \<Rightarrow> ledger_engine \<Rightarrow> state \<Rightarrow> event
     \<Rightarrow> (py_exn + state) \<times> event \<times> ledger_engine" where
  "apply_event X eng st ev =
     (if e_type ev = Some ''gold'' then apply_gold eng st ev
      else if e_type ev = Some ''item'' then apply_item X eng st ev
      else if e_type ev = Some ''stat'' then apply_stat eng st ev
      else if e_type ev = Some ''buff'' then apply_buff eng st ev
      else (Inr st, ev, eng))"

subsection \<open>Replay\<close>

text \<open>
  The temporal context after an event: a \<open>chapter_start\<close> event adds one chapter, an event
  that has the key \<open>word_count_delta\<close> adds its value to the word count, an event that has
  the key \<open>timestamp\<close> sets the time.
\<close>

definition update_context :: "replay_context \<Rightarrow> event \<Rightarrow> replay_context" where
  "update_context ctx ev =
     \<lparr>ctx_chapter = (if e_type ev = Some ''chapter_start'' then ctx_chapter ctx + 1
                     else ctx_chapter ctx),
      ctx_word_count = (case e_word_count_delta ev of
                          None \<Rightarrow> ctx_word_count ctx
                        | Some d \<Rightarrow> ctx_word_count ctx + d),
      ctx_timestamp = (case e_timestamp ev of
                         None \<Rightarrow> ctx_timestamp ctx
                       | Some t \<Rightarrow> Some t)\<rparr>"

text \<open>
  The loop of \<open>reduce\<close>. For every event: update the context, check the expiry of the
  buffs of the temporal state against the updated context, remove the expired identifiers
  from the state, apply the event. The loop hands back the events as the replay leaves
  them: those it has reached carry their annotations, the others are untouched.
\<close>

fun replay ::
  "externals \<Rightarrow> ledger_engine \<Rightarrow> state \<Rightarrow> replay_context \<Rightarrow> event list
     \<Rightarrow> (py_exn + state \<times> replay_context) \<times> event list \<times> ledger_engine" where
  "replay X eng st ctx [] = (Inr (st, ctx), [], eng)"
| "replay X eng st ctx (ev # evs) =
     (let ctx1 = update_context ctx ev
      in case check_expiry X (temporal_state eng) (ctx_chapter ctx1) (ctx_word_count ctx1)
                (ctx_timestamp ctx1) of
           (Inl e, ts) \<Rightarrow> (Inl e, ev # evs, eng\<lparr>temporal_state := ts\<rparr>)
         | (Inr expired_buffs, ts) \<Rightarrow>
             let st1 = st\<lparr>buffs := foldl (\<lambda>bs expired_id. remove1 expired_id bs)
                                      (buffs st) expired_buffs\<rparr>
             in case apply_event X (eng\<lparr>temporal_state := ts\<rparr>) st1 ev of
                  (Inl e, ev', eng') \<Rightarrow> (Inl e, ev' # evs, eng')
                | (Inr st2, ev', eng') \<Rightarrow>
                    (case replay X eng' st2 ctx1 evs of
                       (r, evs', eng'') \<Rightarrow> (r, ev' # evs', eng'')))"

text \<open>
  After the loop: the base stats and the summed effects of the active buffs are combined,
  the chapter and the word count are added as two further variables, all formulas are
  evaluated, and the alerts are computed from the base and the computed stats.
\<close>

definition combine_stats ::
  "(string option, decimal) dict \<Rightarrow> (string, decimal) dict \<Rightarrow> (string option, decimal) dict" where
  "combine_stats base buff_effects =
     foldl (\<lambda>combined (stat, modifier).
              dict_set combined (Some stat)
                (dec_add (case dict_get combined (Some stat) of
                            None \<Rightarrow> Decimal 0 0 | Some current \<Rightarrow> current)
                   modifier))
       base buff_effects"

definition named_entries :: "(string option, decimal) dict \<Rightarrow> (string, decimal) dict" where
  "named_entries d = concat (map (\<lambda>(k, v). case k of None \<Rightarrow> [] | Some n \<Rightarrow> [(n, v)]) d)"

definition CRITICAL_KEYS :: "string list" where
  "CRITICAL_KEYS = [''HP'', ''HEALTH'', ''LIFE'', ''MP'', ''MANA'', ''STAMINA'', ''ENERGY'']"

fun alerts_loop :: "(string option, decimal) dict \<Rightarrow> py_exn + message list" where
  "alerts_loop [] = Inr []"
| "alerts_loop ((None, v) # rest) = Inl (AttributeError (NoneType_has_no_attribute ''upper''))"
| "alerts_loop ((Some k, v) # rest) =
     (case alerts_loop rest of
        Inl e \<Rightarrow> Inl e
      | Inr as \<Rightarrow>
          if upper k \<in> set CRITICAL_KEYS \<and> dec_lt v (Decimal 0 0)
          then Inr (Critical_negative k v # as) else Inr as)"

definition reduce ::
  "externals \<Rightarrow> ledger_engine \<Rightarrow> event list
     \<Rightarrow> (py_exn + state) \<times> event list \<times> ledger_engine" where
  "reduce X eng evs =
     (case replay X eng get_initial_state initial_context evs of
        (Inl e, evs', eng1) \<Rightarrow> (Inl e, evs', eng1)
      | (Inr (st, ctx), evs', eng1) \<Rightarrow>
          let buff_effects = get_active_effects (temporal_state eng1);
              combined_stats =
                dict_set
                  (dict_set (combine_stats (stats st) buff_effects) (Some ''chapter'')
                     (dec_of_int (ctx_chapter ctx)))
                  (Some ''word_count'') (dec_of_int (ctx_word_count ctx))
          in case get_all_computed_stats X (formula_engine eng1)
                    (named_entries combined_stats) of
               (Inl e, fe) \<Rightarrow> (Inl e, evs', eng1\<lparr>formula_engine := fe\<rparr>)
             | (Inr computed, fe) \<Rightarrow>
                 let all_stats = foldl (\<lambda>d (k, v). dict_set d (Some k) v) (stats st) computed
                 in case alerts_loop all_stats of
                      Inl e \<Rightarrow> (Inl e, evs', eng1\<lparr>formula_engine := fe\<rparr>)
                    | Inr as \<Rightarrow>
                        (Inr (st\<lparr>computed_stats := computed, alerts := as\<rparr>), evs',
                         eng1\<lparr>formula_engine := fe\<rparr>))"

subsection \<open>Committing events\<close>

text \<open>
  The validation of the replayed state in strict mode: gold, then every item, then (in
  \<open>add_event\<close> only) every stat.
\<close>

definition first_negative ::
  "(string option, decimal) dict \<Rightarrow> (string option \<times> decimal) option" where
  "first_negative d = find (\<lambda>(k, v). dec_lt v (Decimal 0 0)) d"

text \<open>
  \<open>add_event\<close>. The candidate gets the next identifier, the rules are applied to it, and
  the log extended by the candidate is replayed. The dictionaries in the extended list
  are those of the log, so the annotations that the replay writes reach the stored events
  whether or not the candidate is committed. An exception of \<open>apply_rules\<close> is not caught.
\<close>

definition add_event ::
  "externals \<Rightarrow> ledger_engine \<Rightarrow> event
     \<Rightarrow> (py_exn + bool \<times> message) \<times> ledger_engine" where
  "add_event X eng event0 =
     (let eng1 = eng\<lparr>event_id_counter := event_id_counter eng + 1\<rparr>;
          event1 = event0\<lparr>e_event_id := Some (event_id_counter eng1)\<rparr>
      in case apply_rules (rule_engine eng1) event1 of
           Inl e \<Rightarrow> (Inl e, eng1)
         | Inr event2 \<Rightarrow>
             (case reduce X eng1 (events eng1 @ [event2]) of
                (Inl e, test_events, eng2) \<Rightarrow>
                  (Inr (False, Event_validation_failed (str_exn e)),
                   eng2\<lparr>events := take (length (events eng)) test_events\<rparr>)
              | (Inr test_state, test_events, eng2) \<Rightarrow>
                  let eng3 = eng2\<lparr>events := take (length (events eng)) test_events\<rparr>
                  in if strict_mode eng \<and> dec_lt (gold_cp test_state) (Decimal 0 0)
                     then (Inr (False, Not_enough_gold (gold_cp test_state)), eng3)
                     else (case (if strict_mode eng
                                 then first_negative (inventory test_state) else None) of
                             Some (item, qty) \<Rightarrow> (Inr (False, Not_enough_item item qty), eng3)
                           | None \<Rightarrow>
                               (case (if strict_mode eng
                                      then first_negative (stats test_state) else None) of
                                  Some (stat, v) \<Rightarrow> (Inr (False, Stat_negative stat v), eng3)
                                | None \<Rightarrow>
                                    (Inr (True, Success), eng2\<lparr>events := test_events\<rparr>)))))"

text \<open>
  \<open>_validate_security_rules\<close>: the blocked keywords are searched in the reason after
  lowering it and dropping every character that is no letter or digit; a gain is
  compared with the cap of its kind.
\<close>

definition blocked_keywords :: "string list" where
  "blocked_keywords =
     [''ignoreprompt'', ''ignoreprevious'', ''cheatcode'', ''developeroverride'',
      ''systemoverride'', ''ignoreinstructions'', ''disregardprevious'']"

definition alnum :: "char \<Rightarrow> bool" where
  "alnum c \<longleftrightarrow> word_char c \<and> c \<noteq> CHR ''_''"

definition get_decimal :: "pyval option \<Rightarrow> string \<Rightarrow> decimal" where
  "get_decimal field dflt =
     (case Decimal_of_str
             (clean_number (case field of None \<Rightarrow> dflt | Some v \<Rightarrow> str_pyval v)) of
        Some d \<Rightarrow> d
      | None \<Rightarrow> Decimal 0 0)"

definition validate_security_rules :: "event \<Rightarrow> bool \<times> message" where
  "validate_security_rules ev =
     (let reason_raw = lower (case e_reason ev of None \<Rightarrow> [] | Some r \<Rightarrow> r);
          reason_norm = filter alnum reason_raw
      in case find (\<lambda>kw. contains reason_norm kw) blocked_keywords of
           Some kw \<Rightarrow> (False, Blocked_keyword kw reason_raw)
         | None \<Rightarrow>
             if e_action ev = Some ''gain''
             then let val = get_decimal (e_value ev) ''0''
                  in if e_type ev = Some ''gold''
                     then let unit = upper (case e_unit ev of None \<Rightarrow> [] | Some u \<Rightarrow> u);
                              limit = (if unit \<in> set UNROBUST_STATS then 999999 else 10000)
                          in if dec_lt (dec_of_int limit) val
                             then (False, Gold_gain_exceeds_limit val limit)
                             else (True, Safe)
                     else if e_type ev = Some ''stat''
                     then let name = upper (case e_name ev of None \<Rightarrow> [] | Some n \<Rightarrow> n);
                              limit = (if name \<in> set UNROBUST_STATS then 999999 else 20)
                          in if dec_lt (dec_of_int limit) val
                             then (False, Stat_increase_exceeds_limit val limit)
                             else (True, Safe)
                     else if e_type ev = Some ''item''
                     then let qty = get_decimal (e_qty ev) ''1''
                          in if dec_lt (Decimal 50 0) qty
                             then (False, Item_quantity_exceeds_limit qty)
                             else (True, Safe)
                     else (True, Safe)
             else (True, Safe))"

text \<open>
  \<open>process_batch\<close>. The first loop checks each transaction and gives it the next
  identifier; a blocked transaction ends the call there. Then the log extended by the new
  events is replayed once and, in strict mode, gold and items are validated.
\<close>

fun convert_transactions ::
  "int \<Rightarrow> event list \<Rightarrow> (message + event list) \<times> int" where
  "convert_transactions counter [] = (Inr [], counter)"
| "convert_transactions counter (tx # txs) =
     (case validate_security_rules tx of
        (False, security_msg) \<Rightarrow> (Inl (Transaction_blocked security_msg), counter)
      | (True, _) \<Rightarrow>
          (case convert_transactions (counter + 1) txs of
             (Inl m, c) \<Rightarrow> (Inl m, c)
           | (Inr evs, c) \<Rightarrow> (Inr (tx\<lparr>e_event_id := Some (counter + 1)\<rparr> # evs), c)))"



subsection \<open>Registering a formula on the ledger\<close>


section \<open>Notions used in the statements\<close>

text \<open>
  \<open>annotated e e'\<close>: the event \<open>e'\<close> agrees with \<open>e\<close> on every field that a replay never
  writes. The fields left open are those that a replay does write: the flags, the log
  lines, the name that a fuzzy match settles on together with the original name, and the
  defaults of the two expiry fields.
\<close>

definition annotated :: "event \<Rightarrow> event \<Rightarrow> bool" where
  "annotated e e' \<longleftrightarrow>
     e_event_id e' = e_event_id e \<and> e_action e' = e_action e \<and> e_type e' = e_type e
     \<and> e_value e' = e_value e \<and> e_unit e' = e_unit e \<and> e_qty e' = e_qty e
     \<and> e_effects e' = e_effects e \<and> e_description e' = e_description e
     \<and> e_reason e' = e_reason e \<and> e_word_count_delta e' = e_word_count_delta e
     \<and> e_timestamp e' = e_timestamp e \<and> applied_rules e' = applied_rules e"

text \<open>
  \<open>same_ledger a b\<close>: the engine \<open>b\<close> has the mode, the log, the identifier counter, the
  schema and the rules of \<open>a\<close>.
\<close>

definition same_ledger :: "ledger_engine \<Rightarrow> ledger_engine \<Rightarrow> bool" where
  "same_ledger a b \<longleftrightarrow>
     strict_mode b = strict_mode a \<and> events b = events a
     \<and> event_id_counter b = event_id_counter a \<and> unit_registry b = unit_registry a
     \<and> rule_engine b = rule_engine a"


text \<open>
  The security violations in the words of the specification: a blocked keyword in the
  normalised reason, or a gain above the cap of its kind (for an item, a quantity above
  50).
\<close>

definition names_blocked_keyword :: "event \<Rightarrow> bool" where
  "names_blocked_keyword tx \<longleftrightarrow>
     list_ex (contains (filter alnum (lower (case e_reason tx of None \<Rightarrow> [] | Some r \<Rightarrow> r))))
       blocked_keywords"

definition gold_gain_over_cap :: "event \<Rightarrow> bool" where
  "gold_gain_over_cap tx \<longleftrightarrow>
     e_action tx = Some ''gain'' \<and> e_type tx = Some ''gold''
     \<and> dec_lt (dec_of_int (if upper (case e_unit tx of None \<Rightarrow> [] | Some u \<Rightarrow> u)
                                \<in> set UNROBUST_STATS then 999999 else 10000))
         (get_decimal (e_value tx) ''0'')"

definition stat_gain_over_cap :: "event \<Rightarrow> bool" where
  "stat_gain_over_cap tx \<longleftrightarrow>
     e_action tx = Some ''gain'' \<and> e_type tx = Some ''stat''
     \<and> dec_lt (dec_of_int (if upper (case e_name tx of None \<Rightarrow> [] | Some n \<Rightarrow> n)
                                \<in> set UNROBUST_STATS then 999999 else 20))
         (get_decimal (e_value tx) ''0'')"

definition item_gain_over_cap :: "event \<Rightarrow> bool" where
  "item_gain_over_cap tx \<longleftrightarrow>
     e_action tx = Some ''gain'' \<and> e_type tx = Some ''item''
     \<and> dec_lt (Decimal 50 0) (get_decimal (e_qty tx) ''1'')"

definition security_violation :: "event \<Rightarrow> bool" where
  "security_violation tx \<longleftrightarrow>
     names_blocked_keyword tx \<or> gold_gain_over_cap tx \<or> stat_gain_over_cap tx
     \<or> item_gain_over_cap tx"

section \<open>Examples\<close>







definition buff_event :: "string \<Rightarrow> string \<Rightarrow> int \<Rightarrow> event" where
  "buff_event name etype evalue =
     blank_event\<lparr>e_action := Some ''gain'', e_type := Some ''buff'', e_name := Some name,
                 e_expiry_type := Some etype, e_expiry_value := Some (PInt evalue)\<rparr>"

definition chapter_start_event :: event where
  "chapter_start_event = blank_event\<lparr>e_type := Some ''chapter_start''\<rparr>"

definition word_count_event :: "int \<Rightarrow> event" where
  "word_count_event d =
     blank_event\<lparr>e_type := Some ''word_count_delta'', e_word_count_delta := Some d\<rparr>"



section \<open>Properties of dictionaries\<close>

lemma dict_get_set_same: "dict_get (dict_set d k v) k = Some v"
  by (induction d) (auto simp: dict_get_def)

lemma dict_get_set_other: "k' \<noteq> k \<Longrightarrow> dict_get (dict_set d k v) k' = dict_get d k'"
  by (induction d) (auto simp: dict_get_def)

lemma dict_del_set_fresh: "k \<notin> set (dict_keys d) \<Longrightarrow> dict_del (dict_set d k v) k = d"
  by (induction d) (auto simp: dict_del_def dict_keys_def)

section \<open>Properties of the formula engine\<close>

lemma extract_dependencies_B_times_2: "extract_dependencies ''B * 2'' = [''B'']"
  by (simp add: extract_dependencies_def word_char_def ident_start_def is_digit_def
      formula_keywords_def)

lemma extract_dependencies_A_div_2: "extract_dependencies ''A / 2'' = [''A'']"
  by (simp add: extract_dependencies_def word_char_def ident_start_def is_digit_def
      formula_keywords_def)


section \<open>What a replay leaves alone\<close>

subsection \<open>One event\<close>





lemma same_ledger_trans: "same_ledger a b \<Longrightarrow> same_ledger b c \<Longrightarrow> same_ledger a c"
  by (simp add: same_ledger_def)

















subsection \<open>The loop\<close>


lemma same_ledger_formula: "same_ledger eng (eng\<lparr>formula_engine := fe\<rparr>)"
  by (simp add: same_ledger_def)

text \<open>The three ways in which the loop deals with the first event.\<close>

lemma replay_Cons_cases:
  obtains
    (expiry_raises) e ts where
      "check_expiry X (temporal_state eng) (ctx_chapter (update_context ctx ev))
         (ctx_word_count (update_context ctx ev)) (ctx_timestamp (update_context ctx ev))
       = (Inl e, ts)"
      "replay X eng st ctx (ev # evs) = (Inl e, ev # evs, eng\<lparr>temporal_state := ts\<rparr>)"
  | (apply_raises) expired ts e ev' eng' where
      "check_expiry X (temporal_state eng) (ctx_chapter (update_context ctx ev))
         (ctx_word_count (update_context ctx ev)) (ctx_timestamp (update_context ctx ev))
       = (Inr expired, ts)"
      "apply_event X (eng\<lparr>temporal_state := ts\<rparr>)
         (st\<lparr>buffs := foldl (\<lambda>bs expired_id. remove1 expired_id bs) (buffs st) expired\<rparr>) ev
       = (Inl e, ev', eng')"
      "replay X eng st ctx (ev # evs) = (Inl e, ev' # evs, eng')"
  | (continues) expired ts st2 ev' eng' r evs' eng'' where
      "check_expiry X (temporal_state eng) (ctx_chapter (update_context ctx ev))
         (ctx_word_count (update_context ctx ev)) (ctx_timestamp (update_context ctx ev))
       = (Inr expired, ts)"
      "apply_event X (eng\<lparr>temporal_state := ts\<rparr>)
         (st\<lparr>buffs := foldl (\<lambda>bs expired_id. remove1 expired_id bs) (buffs st) expired\<rparr>) ev
       = (Inr st2, ev', eng')"
      "replay X eng' st2 (update_context ctx ev) evs = (r, evs', eng'')"
      "replay X eng st ctx (ev # evs) = (r, ev' # evs', eng'')"
proof -
  obtain c ts where c: "check_expiry X (temporal_state eng) (ctx_chapter (update_context ctx ev))
         (ctx_word_count (update_context ctx ev)) (ctx_timestamp (update_context ctx ev))
       = (c, ts)"
    by (cases "check_expiry X (temporal_state eng) (ctx_chapter (update_context ctx ev))
         (ctx_word_count (update_context ctx ev)) (ctx_timestamp (update_context ctx ev))")
  show thesis
  proof (cases c)
    case (Inl e)
    with c show thesis by (intro expiry_raises [of e ts]) (simp_all add: Let_def)
  next
    case (Inr expired)
    obtain a ev' eng' where a: "apply_event X (eng\<lparr>temporal_state := ts\<rparr>)
         (st\<lparr>buffs := foldl (\<lambda>bs expired_id. remove1 expired_id bs) (buffs st) expired\<rparr>) ev
       = (a, ev', eng')"
      by (cases "apply_event X (eng\<lparr>temporal_state := ts\<rparr>)
         (st\<lparr>buffs := foldl (\<lambda>bs expired_id. remove1 expired_id bs) (buffs st) expired\<rparr>) ev")
    show thesis
    proof (cases a)
      case (Inl e)
      with c Inr a show thesis
        by (intro apply_raises [of expired ts e ev' eng']) (simp_all add: Let_def)
    next
      case st2: (Inr st2)
      obtain r evs' eng'' where r: "replay X eng' st2 (update_context ctx ev) evs = (r, evs', eng'')"
        by (cases "replay X eng' st2 (update_context ctx ev) evs")
      with c Inr a st2 show thesis
        by (intro continues [of expired ts st2 ev' eng' r evs' eng'']) (simp_all add: Let_def)
    qed
  qed
qed

lemma replay_length: "length (fst (snd (replay X eng st ctx evs))) = length evs"
proof (induction evs arbitrary: eng st ctx)
  case Nil
  show ?case by simp
next
  case (Cons ev evs)
  show ?case
  proof (cases rule: replay_Cons_cases [of X eng ctx ev st evs])
    case expiry_raises
    then show ?thesis by simp
  next
    case apply_raises
    then show ?thesis by simp
  next
    case (continues expired ts st2 ev' eng' r evs' eng'')
    with Cons.IH [of eng' st2 "update_context ctx ev"] show ?thesis by simp
  qed
qed



subsection \<open>\<open>reduce\<close>\<close>

lemma reduce_events:
  "fst (snd (reduce X eng evs)) = fst (snd (replay X eng get_initial_state initial_context evs))"
  by (auto simp: reduce_def Let_def split: prod.split sum.split)


lemma reduce_length: "length (fst (snd (reduce X eng evs))) = length evs"
  by (simp add: reduce_events replay_length)



text \<open>The state that \<open>reduce\<close> returns is the state of the loop, but for the computed stats and alerts.\<close>

lemma reduce_Inr:
  assumes "reduce X eng evs = (Inr s, evs', eng')"
  obtains st ctx eng1 where
    "replay X eng get_initial_state initial_context evs = (Inr (st, ctx), evs', eng1)"
    "gold_cp s = gold_cp st" "inventory s = inventory st" "stats s = stats st"
    "buffs s = buffs st" "temporal_state eng' = temporal_state eng1"
  using assms
  by (auto simp: reduce_def Let_def split: prod.splits sum.splits)

section \<open>Security validation of a batch\<close>

lemma find_Some_if_list_ex: "list_ex P xs \<Longrightarrow> \<exists>x. find P xs = Some x"
  by (induction xs) auto

lemma find_None_if_not_list_ex: "\<not> list_ex P xs \<Longrightarrow> find P xs = None"
  by (induction xs) auto

lemma security_violation_blocked:
  assumes "security_violation tx"
  shows "fst (validate_security_rules tx) = False"
proof (cases "names_blocked_keyword tx")
  case True
  then obtain kw where
    "find (\<lambda>kw. contains (filter alnum (lower (case e_reason tx of None \<Rightarrow> [] | Some r \<Rightarrow> r))) kw)
       blocked_keywords = Some kw"
    unfolding names_blocked_keyword_def by (metis find_Some_if_list_ex)
  then show ?thesis by (simp add: validate_security_rules_def Let_def)
next
  case False
  then have none:
    "find (\<lambda>kw. contains (filter alnum (lower (case e_reason tx of None \<Rightarrow> [] | Some r \<Rightarrow> r))) kw)
       blocked_keywords = None"
    unfolding names_blocked_keyword_def by (rule find_None_if_not_list_ex)
  from False assms have "gold_gain_over_cap tx \<or> stat_gain_over_cap tx \<or> item_gain_over_cap tx"
    by (simp add: security_violation_def)
  then show ?thesis
    by (auto simp: validate_security_rules_def Let_def none gold_gain_over_cap_def
        stat_gain_over_cap_def item_gain_over_cap_def)
qed



section \<open>The outcomes of a submission\<close>



lemma list_all2_annotated_drop:
  assumes "list_all2 annotated (old @ new) test_events"
  shows "list_all2 annotated new (drop (length old) test_events)"
  using list_all2_dropI [OF assms, of "length old"] by simp



lemma add_event_draft:
  assumes "apply_rules (rule_engine eng) (ev\<lparr>e_event_id := Some (event_id_counter eng + 1)\<rparr>)
           = Inr ev2"
    and "reduce X (eng\<lparr>event_id_counter := event_id_counter eng + 1\<rparr>) (events eng @ [ev2])
         = (Inr s, test_events, eng2)"
    and "\<not> strict_mode eng"
  shows "add_event X eng ev = (Inr (True, Success), eng2\<lparr>events := test_events\<rparr>)"
  using assms by (simp add: add_event_def Let_def)

lemma add_event_replay_raises:
  assumes "apply_rules (rule_engine eng) (ev\<lparr>e_event_id := Some (event_id_counter eng + 1)\<rparr>)
           = Inr ev2"
    and "reduce X (eng\<lparr>event_id_counter := event_id_counter eng + 1\<rparr>) (events eng @ [ev2])
         = (Inl e, test_events, eng2)"
  shows "add_event X eng ev
         = (Inr (False, Event_validation_failed (str_exn e)),
            eng2\<lparr>events := take (length (events eng)) test_events\<rparr>)"
  using assms by (simp add: add_event_def Let_def)


lemma convert_transactions_Inr:
  "convert_transactions c txs = (Inr evs, c')
   \<Longrightarrow> c' = c + int (length txs) \<and> length evs = length txs
       \<and> map e_event_id evs = map (\<lambda>i. Some (c + 1 + int i)) [0..<length txs]
       \<and> list_all (\<lambda>tx. \<not> security_violation tx) txs
       \<and> list_all2 (\<lambda>tx ev. ev = tx\<lparr>e_event_id := e_event_id ev\<rparr>) txs evs"
proof (induction txs arbitrary: c evs c')
  case Nil
  then show ?case by simp
next
  case (Cons tx txs)
  obtain ok msg where v: "validate_security_rules tx = (ok, msg)"
    by (cases "validate_security_rules tx")
  with Cons.prems have ok: ok by (cases ok) auto
  obtain r1 c1 where c1: "convert_transactions (c + 1) txs = (r1, c1)"
    by (cases "convert_transactions (c + 1) txs")
  with v ok Cons.prems obtain evs1 where r1: "r1 = Inr evs1"
    and evs: "evs = tx\<lparr>e_event_id := Some (c + 1)\<rparr> # evs1" and c': "c' = c1"
    by (cases r1) auto
  from Cons.IH [OF c1 [unfolded r1]]
  have ih: "c1 = c + 1 + int (length txs)" "length evs1 = length txs"
    "map e_event_id evs1 = map (\<lambda>i. Some (c + 1 + 1 + int i)) [0..<length txs]"
    "list_all (\<lambda>tx. \<not> security_violation tx) txs"
    "list_all2 (\<lambda>tx ev. ev = tx\<lparr>e_event_id := e_event_id ev\<rparr>) txs evs1"
    by simp_all
  have "map (\<lambda>i. Some (c + 1 + int i)) [0..<Suc (length txs)]
        = Some (c + 1) # map (\<lambda>i. Some (c + 1 + 1 + int i)) [0..<length txs]"
    by (simp add: upt_conv_Cons map_Suc_upt [symmetric] del: upt_Suc)
  moreover from security_violation_blocked [of tx] v ok have "\<not> security_violation tx" by auto
  ultimately show ?case using ih evs c' by simp
qed








section \<open>The claims\<close>


lemma register_A_fresh:
  "register_formula FormulaEngine_init ''A'' ''B * 2''
     = (None, \<lparr>formulas = [(''A'', ''B * 2'')], dirty_flags = [(''A'', True)],
                dependencies = [(''A'', [''B''])]\<rparr>)"
  by (simp add: register_formula_def Let_def extract_dependencies_B_times_2
      FormulaEngine_init_def dict_get_def detect_cycles.simps)

text \<open>
  C6, as the code has it. When \<open>A = B * 2\<close> has been registered and \<open>B\<close> is not yet a
  registered name, registering \<open>B = A / 2\<close> raises the ValueError
  "Circular dependency detected" with the path \<open>B, A, B\<close>, and the engine is left exactly
  as it was before this second call: the entries of \<open>B\<close> are removed again, those of
  \<open>A\<close> stay.
\<close>

theorem register_formula_cycle_rollback:
  assumes "register_formula fe ''A'' ''B * 2'' = (None, fe1)"
    and "\<not> registered fe1 ''B''"
  shows "register_formula fe1 ''B'' ''A / 2''
           = (Some (ValueError (Circular_dependency_detected [''B'', ''A'', ''B''])), fe1)"
proof -
  have depA: "dict_get (dependencies fe1) ''A'' = Some [''B'']"
    using assms(1)
    by (auto simp: register_formula_def Let_def dict_get_set_same
        extract_dependencies_B_times_2 split: option.splits)
  let ?deps = "dict_set (dependencies fe1) ''B'' [''A'']"
  have gB: "dict_get ?deps ''B'' = Some [''A'']"
    by (rule dict_get_set_same)
  have gA: "dict_get ?deps ''A'' = Some [''B'']"
    using depA by (simp add: dict_get_set_other)
  have dc: "detect_cycles ?deps ''B'' {} []
      = Some (ValueError (Circular_dependency_detected [''B'', ''A'', ''B'']))"
    by (simp add: gA gB detect_cycles.simps)
  show ?thesis
    using assms(2)
    by (simp add: register_formula_def Let_def extract_dependencies_A_div_2 registered_def
        dict_del_set_fresh dc)
qed

theorem register_formula_cycle_rollback_witness:
  "register_formula FormulaEngine_init ''A'' ''B * 2''
     = (None, \<lparr>formulas = [(''A'', ''B * 2'')], dirty_flags = [(''A'', True)],
                dependencies = [(''A'', [''B''])]\<rparr>)
   \<and> \<not> registered \<lparr>formulas = [(''A'', ''B * 2'')], dirty_flags = [(''A'', True)],
                dependencies = [(''A'', [''B''])]\<rparr> ''B''
   \<and> register_formula \<lparr>formulas = [(''A'', ''B * 2'')], dirty_flags = [(''A'', True)],
                dependencies = [(''A'', [''B''])]\<rparr> ''B'' ''A / 2''
       = (Some (ValueError (Circular_dependency_detected [''B'', ''A'', ''B''])),
          \<lparr>formulas = [(''A'', ''B * 2'')], dirty_flags = [(''A'', True)],
                dependencies = [(''A'', [''B''])]\<rparr>)"
proof -
  have nb: "\<not> registered \<lparr>formulas = [(''A'', ''B * 2'')], dirty_flags = [(''A'', True)],
                dependencies = [(''A'', [''B''])]\<rparr> ''B''"
    by (simp add: registered_def dict_keys_def)
  show ?thesis
    using register_formula_cycle_rollback [OF register_A_fresh nb] register_A_fresh nb
    by simp
qed

text \<open>
  C6 as stated fails: after the two calls on a fresh engine the formula \<open>A\<close> is still
  registered, so the tables are not those of an engine on which neither call happened.
\<close>

theorem register_formula_cycle_counterexample:
  "registered
     (snd (register_formula (snd (register_formula FormulaEngine_init ''A'' ''B * 2''))
             ''B'' ''A / 2'')) ''A''
   \<and> snd (register_formula (snd (register_formula FormulaEngine_init ''A'' ''B * 2''))
             ''B'' ''A / 2'') \<noteq> FormulaEngine_init"
proof -
  have nb: "\<not> registered \<lparr>formulas = [(''A'', ''B * 2'')], dirty_flags = [(''A'', True)],
                dependencies = [(''A'', [''B''])]\<rparr> ''B''"
    by (simp add: registered_def dict_keys_def)
  have "register_formula (snd (register_formula FormulaEngine_init ''A'' ''B * 2''))
             ''B'' ''A / 2''
       = (Some (ValueError (Circular_dependency_detected [''B'', ''A'', ''B''])),
          \<lparr>formulas = [(''A'', ''B * 2'')], dirty_flags = [(''A'', True)],
                dependencies = [(''A'', [''B''])]\<rparr>)"
    using register_A_fresh nb
    by (simp add: register_formula_def Let_def extract_dependencies_A_div_2 registered_def
        dict_del_set_fresh dict_get_def detect_cycles.simps dict_del_def dict_keys_def)
  then show ?thesis
    by (simp add: registered_def dict_keys_def FormulaEngine_init_def)
qed




end
